theory Spec2Isabelle
  imports Main "HOL-Library.AList"
begin

section \<open>Python values, exceptions and responses\<close>

text \<open>
  The REST interface of \<^verbatim>\<open>server/web/rest/demos.py\<close> handles JSON documents, Python
  dictionaries and exceptions. A value is a \<open>pyval\<close>; a dictionary is an association
  list, read with \<open>map_of\<close> and written with \<open>AList.update\<close>; a \<^verbatim>\<open>float\<close> is its
  mantissa and exponent, and a \<^verbatim>\<open>datetime\<close> is a number of seconds.
\<close>

datatype pyval =
    PNone
  | PBool bool
  | PStr string
  | PInt int
  | PFloat int int
  | PDatetime int
  | PList "pyval list"
  | PDict "(string \<times> pyval) list"

text \<open>Python's own exception classes that the interface can run into.\<close>

datatype py_error = AttributeError | TypeError | KeyError | IndexError | ValueError

text \<open>
  Modelled from the spec: \<^verbatim>\<open>server.exceptions\<close> is missing. Its classes are the ones
  that the source files import from it, for the error kinds of section 7; the last one
  is the kind \<open>AggregationTimeout\<close> of that section, which no source file imports or
  raises.
\<close>

datatype server_exception =
    APIException
  | TokenException
  | ResourceDoesNotExistException
  | UnprocessableEntityException
  | AuthenticationException
  | AggregationTimeout

text \<open>
  An exception is either built into Python (class and message), or one of the server's
  (class, message and the \<^verbatim>\<open>internal_details\<close> keyword), or the \<^verbatim>\<open>BadRequest\<close> of
  Werkzeug (HTTP status 400, with its description), which Flask's
  \<^verbatim>\<open>request.get_json()\<close> raises on a body that claims to be JSON and does not parse.
\<close>

datatype exn =
    PyError py_error string
  | ServerError server_exception string "string option"
  | BadRequest string

text \<open>A Flask \<^verbatim>\<open>Response(body, status=..., mimetype=...)\<close>.\<close>

record 'b response =
  body :: 'b
  status :: nat
  mimetype :: string

text \<open>
  An attribute of Flask's per-request object \<^verbatim>\<open>g\<close>: never assigned, or assigned a value
  (which may be \<^verbatim>\<open>None\<close>). Reading an attribute that was never assigned raises
  \<^verbatim>\<open>AttributeError\<close>.
\<close>

datatype 'a attr = Unset | Assigned 'a

record g =
  auth :: "pyval attr"

definition getattr_auth :: "g \<Rightarrow> exn + pyval" where
  "getattr_auth ctx =
     (case auth ctx of
        Unset \<Rightarrow> Inl (PyError AttributeError ''auth'')
      | Assigned v \<Rightarrow> Inr v)"

text \<open>
  \<^verbatim>\<open>v[key]\<close> with a string key: a dictionary looks the key up (\<^verbatim>\<open>KeyError\<close> when it
  is missing), every other value of the model raises \<^verbatim>\<open>TypeError\<close>.
\<close>

fun getitem :: "pyval \<Rightarrow> string \<Rightarrow> exn + pyval" where
  "getitem (PDict d) k =
     (case map_of d k of None \<Rightarrow> Inl (PyError KeyError k) | Some v \<Rightarrow> Inr v)"
| "getitem v k = Inl (PyError TypeError k)"

text \<open>
  \<^verbatim>\<open>v.get(key)\<close>: a dictionary answers with the value or \<^verbatim>\<open>None\<close>; no other value of
  the model has an attribute \<^verbatim>\<open>get\<close>.
\<close>

fun dict_get :: "pyval \<Rightarrow> string \<Rightarrow> exn + pyval" where
  "dict_get (PDict d) k = (case map_of d k of None \<Rightarrow> Inr PNone | Some v \<Rightarrow> Inr v)"
| "dict_get v k = Inl (PyError AttributeError ''get'')"

text \<open>\<^verbatim>\<open>xs[i]\<close> on a list: \<^verbatim>\<open>IndexError\<close> out of range.\<close>

definition index :: "'a list \<Rightarrow> nat \<Rightarrow> exn + 'a" where
  "index xs i = (if i < length xs then Inr (xs ! i) else Inl (PyError IndexError ''list index out of range''))"

section \<open>The worker pool of \<^verbatim>\<open>load_admin_data\<close>\<close>

text \<open>
  A call handed to a worker process either never completes (\<open>None\<close>), raises, or
  returns.
\<close>

type_synonym 'a outcome = "(exn + 'a) option"

text \<open>
  Modelled from the spec: \<^verbatim>\<open>server.utils.async_helper\<close> is not among the source files.
  It receives one pair of \<^verbatim>\<open>erp_calls\<close> and runs the call on the credential bound to it
  (``each given the same credential'').
\<close>

definition async_helper :: "('t \<Rightarrow> 'a outcome) \<times> 't \<Rightarrow> 'a outcome" where
  "async_helper call = (fst call) (snd call)"

text \<open>The results of a pool whose tasks have all returned, in the order of the tasks.\<close>

fun collect :: "'a outcome list \<Rightarrow> 'a list option" where
  "collect [] = Some []"
| "collect (Some (Inr v) # os) = map_option ((#) v) (collect os)"
| "collect (_ # os) = None"

text \<open>
  \<^verbatim>\<open>Pool.map\<close> of Python 2.7 (the source is Python 2: it calls \<^verbatim>\<open>unicode\<close>), with one
  task per item. The parent handles the tasks' completions in the order \<open>order\<close> in
  which they arrive (task numbers): the first failure it sees is raised at once; when
  every arrival was a success, the call returns once all tasks have arrived and blocks
  forever (\<open>None\<close>) when one never does.
\<close>

fun await :: "nat list \<Rightarrow> 'a outcome list \<Rightarrow> (exn + 'a list) option" where
  "await [] outs = map_option Inr (collect outs)"
| "await (i # order) outs =
     (if i < length outs then
        (case outs ! i of
           Some (Inl e) \<Rightarrow> Some (Inl e)
         | _ \<Rightarrow> await order outs)
      else await order outs)"

definition pool_map :: "nat list \<Rightarrow> ('c \<Rightarrow> 'a outcome) \<Rightarrow> 'c list \<Rightarrow> (exn + 'a list) option" where
  "pool_map order f calls = await order (map f calls)"

text \<open>
  An arrival order of a run: every task that completes arrives exactly once, and no
  other task does.
\<close>

definition arrival_order :: "nat list \<Rightarrow> 'a outcome list \<Rightarrow> bool" where
  "arrival_order order outs \<longleftrightarrow>
     distinct order \<and> set order = set (filter (\<lambda>i. outs ! i \<noteq> None) [0..<length outs])"

section \<open>The admin view\<close>

text \<open>The three ERP services that \<^verbatim>\<open>load_admin_data\<close> calls; each returns JSON text.\<close>

record erp =
  get_shipments :: "pyval \<Rightarrow> string outcome"
  get_distribution_centers :: "pyval \<Rightarrow> string outcome"
  get_retailers :: "pyval \<Rightarrow> string outcome"

text \<open>\<^verbatim>\<open>json.loads\<close> is a parameter: \<open>None\<close> stands for the \<^verbatim>\<open>ValueError\<close> it raises.\<close>

definition loads :: "(string \<Rightarrow> pyval option) \<Rightarrow> string \<Rightarrow> exn + pyval" where
  "loads json_loads s =
     (case json_loads s of
        None \<Rightarrow> Inl (PyError ValueError ''No JSON object could be decoded'')
      | Some v \<Rightarrow> Inr v)"

text \<open>
  The response that \<^verbatim>\<open>load_admin_data\<close> builds from the results of the pool; its body
  is the dictionary handed to \<^verbatim>\<open>json.dumps\<close>, the entries evaluated in the order they
  are written.
\<close>

definition admin_response ::
  "(string \<Rightarrow> pyval option) \<Rightarrow> string list \<Rightarrow> exn + pyval response" where
  "admin_response json_loads results =
     (case index results 0 of Inl e \<Rightarrow> Inl e | Inr r0 \<Rightarrow>
      case loads json_loads r0 of Inl e \<Rightarrow> Inl e | Inr shipments \<Rightarrow>
      case index results 1 of Inl e \<Rightarrow> Inl e | Inr r1 \<Rightarrow>
      case loads json_loads r1 of Inl e \<Rightarrow> Inl e | Inr distribution_centers \<Rightarrow>
      case index results 2 of Inl e \<Rightarrow> Inl e | Inr r2 \<Rightarrow>
      case loads json_loads r2 of Inl e \<Rightarrow> Inl e | Inr retailers \<Rightarrow>
        Inr \<lparr>body = PDict [(''shipments'', shipments),
                           (''distribution-centers'', distribution_centers),
                           (''retailers'', retailers)],
             status = 200, mimetype = ''application/json''\<rparr>)"

text \<open>The list \<^verbatim>\<open>erp_calls\<close>: each service with the credential bound to it.\<close>

definition erp_calls :: "erp \<Rightarrow> pyval \<Rightarrow> ((pyval \<Rightarrow> string outcome) \<times> pyval) list" where
  "erp_calls services loopback_token =
     [(get_shipments services, loopback_token),
      (get_distribution_centers services, loopback_token),
      (get_retailers services, loopback_token)]"

text \<open>
  The body of \<^verbatim>\<open>load_admin_data\<close>. \<open>to_str\<close> is Python's \<^verbatim>\<open>str\<close> on exceptions and
  \<open>order\<close> the arrival order of the pool's tasks. After a map that succeeded,
  \<^verbatim>\<open>pool.close()\<close> and \<^verbatim>\<open>pool.join()\<close> wait for workers that have no task left.
\<close>

definition load_admin_data_body ::
  "erp \<Rightarrow> (string \<Rightarrow> pyval option) \<Rightarrow> (exn \<Rightarrow> string) \<Rightarrow> nat list \<Rightarrow> g
     \<Rightarrow> (exn + pyval response) option" where
  "load_admin_data_body services json_loads to_str order ctx =
     (case getattr_auth ctx of Inl e \<Rightarrow> Some (Inl e) | Inr a \<Rightarrow>
      case getitem a ''loopback_token'' of Inl e \<Rightarrow> Some (Inl e) | Inr loopback_token \<Rightarrow>
      case pool_map order async_helper (erp_calls services loopback_token) of
        None \<Rightarrow> None
      | Some (Inl e) \<Rightarrow>
          Some (Inl (ServerError APIException ''Error retrieving admin data view'' (Some (to_str e))))
      | Some (Inr results) \<Rightarrow> Some (admin_response json_loads results))"

text \<open>
  \<^verbatim>\<open>@web_utils.logged_in\<close>: the decorator is not among the source files. It is a
  parameter, a guard that either raises or lets the decorated function run.
\<close>

definition load_admin_data ::
  "(g \<Rightarrow> exn option) \<Rightarrow> erp \<Rightarrow> (string \<Rightarrow> pyval option) \<Rightarrow> (exn \<Rightarrow> string) \<Rightarrow> nat list \<Rightarrow> g
     \<Rightarrow> (exn + pyval response) option" where
  "load_admin_data logged_in services json_loads to_str order ctx =
     (case logged_in ctx of
        Some e \<Rightarrow> Some (Inl e)
      | None \<Rightarrow> load_admin_data_body services json_loads to_str order ctx)"

text \<open>The outcomes of the three calls of one run, in the order of \<^verbatim>\<open>erp_calls\<close>.\<close>

definition outcomes :: "erp \<Rightarrow> pyval \<Rightarrow> string outcome list" where
  "outcomes services loopback_token = map async_helper (erp_calls services loopback_token)"

section \<open>The authentication context\<close>

text \<open>
  \<^verbatim>\<open>setup_auth_from_request\<close>. The helpers \<^verbatim>\<open>web_utils.get_token_from_request\<close> and
  \<^verbatim>\<open>web_utils.detokenize\<close> are not among the source files; they are parameters, each
  raising or returning. A decoded token is a dictionary. The inner \<open>case\<close> is the
  \<^verbatim>\<open>try\<close> block, the outer one the \<^verbatim>\<open>except\<close> clause.
\<close>

fun caught :: "exn \<Rightarrow> bool" where
  "caught (ServerError c m d) = (c = TokenException \<or> c = ResourceDoesNotExistException)"
| "caught (PyError c m) = False"
| "caught (BadRequest m) = False"

definition setup_auth_from_request ::
  "('r \<Rightarrow> exn + 'tok option) \<Rightarrow> ('tok \<Rightarrow> exn + (string \<times> pyval) list) \<Rightarrow> 'r \<Rightarrow> g \<Rightarrow> exn + g" where
  "setup_auth_from_request get_token_from_request detokenize request ctx =
     (case
        (case get_token_from_request request of
           Inl e \<Rightarrow> Inl e
         | Inr None \<Rightarrow> Inr ctx
         | Inr (Some token) \<Rightarrow>
             (case detokenize token of
                Inl e \<Rightarrow> Inl e
              | Inr payload \<Rightarrow> Inr (ctx\<lparr>auth := Assigned (PDict payload)\<rparr>)))
      of
        Inl e \<Rightarrow> if caught e then Inr (ctx\<lparr>auth := Assigned PNone\<rparr>) else Inl e
      | Inr ctx' \<Rightarrow> Inr ctx')"

text \<open>
  \<^verbatim>\<open>deauthenticate\<close>. \<^verbatim>\<open>user_service.logout\<close> is a parameter that acts on the state \<open>w\<close>
  of the world behind the services. The result \<^verbatim>\<open>('', 204)\<close> is the pair itself.
\<close>

definition deauthenticate ::
  "('r \<Rightarrow> exn + 'tok option) \<Rightarrow> (pyval \<Rightarrow> 'w \<Rightarrow> exn option \<times> 'w) \<Rightarrow> 'r \<Rightarrow> g \<Rightarrow> 'tok \<Rightarrow> 'w
     \<Rightarrow> (exn + string \<times> nat) \<times> 'w" where
  "deauthenticate get_token_from_request user_service_logout request ctx token w =
     (case get_token_from_request request of
        Inl e \<Rightarrow> (Inl e, w)
      | Inr request_token \<Rightarrow>
          if request_token = Some token then
            (case getattr_auth ctx of Inl e \<Rightarrow> (Inl e, w) | Inr a \<Rightarrow>
             case getitem a ''loopback_token'' of Inl e \<Rightarrow> (Inl e, w) | Inr loopback_token \<Rightarrow>
             case user_service_logout loopback_token w of
               (Some e, w') \<Rightarrow> (Inl e, w')
             | (None, w') \<Rightarrow> (Inr ('''', 204), w'))
          else (Inr ('''', 204), w))"

text \<open>
  A request to \<^verbatim>\<open>DELETE /logout/<token>\<close> as the application of
  \<^verbatim>\<open>server/web/__init__.py\<close> serves it: \<^verbatim>\<open>setup_auth_from_request\<close> is registered with
  \<^verbatim>\<open>before_request\<close> and runs on a fresh \<^verbatim>\<open>g\<close>, then the view runs.
\<close>

definition logout_request ::
  "('r \<Rightarrow> exn + 'tok option) \<Rightarrow> ('tok \<Rightarrow> exn + (string \<times> pyval) list)
     \<Rightarrow> (pyval \<Rightarrow> 'w \<Rightarrow> exn option \<times> 'w) \<Rightarrow> 'r \<Rightarrow> 'tok \<Rightarrow> 'w \<Rightarrow> (exn + string \<times> nat) \<times> 'w" where
  "logout_request get_token_from_request detokenize user_service_logout request token w =
     (case setup_auth_from_request get_token_from_request detokenize request \<lparr>auth = Unset\<rparr> of
        Inl e \<Rightarrow> (Inl e, w)
      | Inr ctx \<Rightarrow> deauthenticate get_token_from_request user_service_logout request ctx token w)"

section \<open>Demo sessions over REST\<close>

text \<open>
  The views delegate to \<^verbatim>\<open>server.services.demos\<close> and \<^verbatim>\<open>server.services.users\<close>, which
  are not among the source files: each service function is a parameter, and so is
  \<^verbatim>\<open>web_utils.check_null_input\<close>. The guid of a route is a string.
\<close>

definition create_demo :: "('w \<Rightarrow> (exn + 'd) \<times> 'w) \<Rightarrow> 'w \<Rightarrow> (exn + 'd response) \<times> 'w" where
  "create_demo demo_service_create_demo w =
     (case demo_service_create_demo w of
        (Inl e, w') \<Rightarrow> (Inl e, w')
      | (Inr demo, w') \<Rightarrow>
          (Inr \<lparr>body = demo, status = 201, mimetype = ''application/json''\<rparr>, w'))"

definition get_demo ::
  "((pyval \<times> string) list \<Rightarrow> exn option) \<Rightarrow> (string \<Rightarrow> 'w \<Rightarrow> exn + 'd) \<Rightarrow> string \<Rightarrow> 'w
     \<Rightarrow> exn + 'd response" where
  "get_demo check_null_input demo_service_get_demo_by_guid guid w =
     (case check_null_input [(PStr guid, ''demo to retrieve'')] of
        Some e \<Rightarrow> Inl e
      | None \<Rightarrow>
          (case demo_service_get_demo_by_guid guid w of
             Inl e \<Rightarrow> Inl e
           | Inr demo \<Rightarrow> Inr \<lparr>body = demo, status = 200, mimetype = ''application/json''\<rparr>))"

definition delete_demo ::
  "((pyval \<times> string) list \<Rightarrow> exn option) \<Rightarrow> (string \<Rightarrow> 'w \<Rightarrow> exn option \<times> 'w) \<Rightarrow> string \<Rightarrow> 'w
     \<Rightarrow> (exn + string \<times> nat) \<times> 'w" where
  "delete_demo check_null_input demo_service_delete_demo_by_guid guid w =
     (case check_null_input [(PStr guid, ''demo to delete'')] of
        Some e \<Rightarrow> (Inl e, w)
      | None \<Rightarrow>
          (case demo_service_delete_demo_by_guid guid w of
             (Some e, w') \<Rightarrow> (Inl e, w')
           | (None, w') \<Rightarrow> (Inr ('''', 204), w')))"

text \<open>
  \<^verbatim>\<open>demo_login\<close>. \<open>get_json\<close> is Flask's \<^verbatim>\<open>request.get_json()\<close>: it returns \<^verbatim>\<open>None\<close>
  when the request does not claim to carry JSON, returns the parsed value when it
  does, and raises (\<^verbatim>\<open>BadRequest\<close>) when the body that claims to be JSON is empty or
  malformed. \<open>utcnow\<close> is the clock; the body of the response is the dictionary handed
  to \<^verbatim>\<open>json.dumps\<close>, and a cookie is its name, its value and the \<^verbatim>\<open>httponly\<close> flag.
\<close>

record ('b, 'c) cookie_response = "'b response" +
  cookies :: "(string \<times> 'c \<times> bool) list"

definition demo_login ::
  "('r \<Rightarrow> exn + pyval) \<Rightarrow> ((pyval \<times> string) list \<Rightarrow> exn option)
     \<Rightarrow> (string \<Rightarrow> pyval \<Rightarrow> 'w \<Rightarrow> (exn + (string \<times> pyval) list) \<times> 'w)
     \<Rightarrow> ((string \<times> pyval) list \<Rightarrow> exn + 'tok) \<Rightarrow> int \<Rightarrow> 'r \<Rightarrow> string \<Rightarrow> 'w
     \<Rightarrow> (exn + ((string \<times> 'tok) list, 'tok) cookie_response) \<times> 'w" where
  "demo_login get_json check_null_input user_service_login tokenize utcnow request guid w =
     (case get_json request of Inl e \<Rightarrow> (Inl e, w) | Inr data \<Rightarrow>
      case dict_get data ''userId'' of Inl e \<Rightarrow> (Inl e, w) | Inr user_id \<Rightarrow>
      case check_null_input [(user_id, ''username when logging in''),
                             (PStr guid, ''demo guid when logging in'')] of
        Some e \<Rightarrow> (Inl e, w)
      | None \<Rightarrow>
      case user_service_login guid user_id w of
        (Inl e, w') \<Rightarrow> (Inl e, w')
      | (Inr auth_data, w') \<Rightarrow>
      let auth_data' = AList.update ''exp'' (PDatetime (utcnow + 14 * 86400)) auth_data in
      case tokenize auth_data' of
        Inl e \<Rightarrow> (Inl e, w')
      | Inr token \<Rightarrow>
          (Inr \<lparr>body = [(''token'', token)], status = 200, mimetype = ''application/json'',
                cookies = [(''auth_token'', token, True)]\<rparr>, w'))"

section \<open>The application's exception handler\<close>

text \<open>
  \<^verbatim>\<open>exception_handler\<close> of \<^verbatim>\<open>create_app\<close>. Which classes of \<^verbatim>\<open>server.exceptions\<close> derive
  from \<^verbatim>\<open>APIException\<close>, Python's \<^verbatim>\<open>unicode\<close>, \<^verbatim>\<open>compose_error\<close> and the classes'
  \<^verbatim>\<open>status_code\<close> are parameters. No built-in exception is an \<^verbatim>\<open>APIException\<close>, nor is
  Werkzeug's \<^verbatim>\<open>BadRequest\<close>.
\<close>

fun isinstance_APIException :: "(server_exception \<Rightarrow> bool) \<Rightarrow> exn \<Rightarrow> bool" where
  "isinstance_APIException derived (ServerError c m d) = (c = APIException \<or> derived c)"
| "isinstance_APIException derived (PyError c m) = False"
| "isinstance_APIException derived (BadRequest m) = False"

definition exception_handler ::
  "(server_exception \<Rightarrow> bool) \<Rightarrow> (exn \<Rightarrow> string) \<Rightarrow> (exn \<Rightarrow> exn \<Rightarrow> 'b) \<Rightarrow> (exn \<Rightarrow> nat) \<Rightarrow> exn
     \<Rightarrow> 'b response" where
  "exception_handler derived unicode compose_error status_code e =
     (let exc = (if \<not> isinstance_APIException derived e
                 then ServerError APIException ''Server Error'' (Some (unicode e))
                 else e)
      in \<lparr>body = compose_error exc e, status = status_code exc, mimetype = ''application/json''\<rparr>)"

text \<open>
  \<^verbatim>\<open>bad_request_handler\<close> of \<^verbatim>\<open>create_app\<close>; the body is the dictionary handed to
  \<^verbatim>\<open>json.dumps\<close>.
\<close>

definition bad_request_handler :: "exn \<Rightarrow> pyval response" where
  "bad_request_handler e =
     (let status_code = 400
      in \<lparr>body = PDict [(''code'', PInt (int status_code)), (''message'', PStr ''Bad request.'')],
           status = status_code, mimetype = ''application/json''\<rparr>)"

text \<open>
  The handlers as \<^verbatim>\<open>create_app\<close> registers them: \<^verbatim>\<open>errorhandler(400)\<close> gives a
  \<^verbatim>\<open>BadRequest\<close> to \<^verbatim>\<open>bad_request_handler\<close>, and \<^verbatim>\<open>errorhandler(Exception)\<close> gives
  every other exception of the model to \<^verbatim>\<open>exception_handler\<close>.
\<close>

fun handle_user_exception ::
  "(server_exception \<Rightarrow> bool) \<Rightarrow> (exn \<Rightarrow> string) \<Rightarrow> (exn \<Rightarrow> exn \<Rightarrow> pyval) \<Rightarrow> (exn \<Rightarrow> nat) \<Rightarrow> exn
     \<Rightarrow> pyval response" where
  "handle_user_exception derived unicode compose_error status_code (BadRequest m) =
     bad_request_handler (BadRequest m)"
| "handle_user_exception derived unicode compose_error status_code e =
     exception_handler derived unicode compose_error status_code e"

section \<open>The session store, the login service and the token codec\<close>

text \<open>
  The views above call \<^verbatim>\<open>server.services.demos\<close>, \<^verbatim>\<open>server.services.users\<close> and
  \<^verbatim>\<open>server.web.utils\<close>, none of which is among the source files. The definitions of
  this section follow the specification's words for them.
\<close>

text \<open>
  Modelled from the spec: \<^verbatim>\<open>web_utils.check_null_input\<close> is missing. It ``validates
  [that the] inputs are present (fails with \<open>UnprocessableEntity\<close> if either is
  missing)''; each input comes with the words that name it.
\<close>

fun check_null_input :: "(pyval \<times> string) list \<Rightarrow> exn option" where
  "check_null_input [] = None"
| "check_null_input ((v, what) # inputs) =
     (if v = PNone then Some (ServerError UnprocessableEntityException what None)
      else check_null_input inputs)"

text \<open>
  Modelled from the spec: the class of a \<open>Role\<close> is missing. Section 3 gives it the
  fields \<open>id\<close>, \<open>name\<close>, \<open>createdAt\<close> and \<open>modifiedAt\<close>.
\<close>

record role =
  role_id :: nat
  role_name :: string
  role_created :: int
  role_modified :: int

text \<open>
  Modelled from the spec: the class of a \<open>User\<close> is missing. Section 3 gives it the
  fields \<open>id\<close>, \<open>demoId\<close>, \<open>username\<close>, \<open>email\<close> and \<open>roles\<close>.
\<close>

record user =
  user_id :: nat
  demoId :: nat
  username :: string
  email :: string
  roles :: "role list"

text \<open>
  Modelled from the spec: the class of a \<open>DemoSession\<close> is missing. Section 3 gives it
  the fields \<open>id\<close>, \<open>guid\<close>, \<open>displayName\<close>, \<open>createdAt\<close> and \<open>users\<close>, ``an ordered
  sequence of User''.
\<close>

record demo_session =
  demo_id :: nat
  guid :: string
  displayName :: string
  createdAt :: int
  users :: "user list"

text \<open>
  Modelled from the spec: the state behind \<^verbatim>\<open>server.services.demos\<close> is missing. The
  Session Store of section 4.1 is a ``mapping from demo identifier to demo session
  state'' that ``owns identity generation'': the sessions by guid, and the next free
  id.
\<close>

record session_store =
  sessions :: "(string \<times> demo_session) list"
  next_id :: nat

text \<open>
  Modelled from the spec: the initial state of the missing Session Store, with no
  session in it.
\<close>

definition empty_store :: session_store where
  "empty_store = \<lparr>sessions = [], next_id = 1\<rparr>"

text \<open>
  Modelled from the spec: the error \<open>ResourceNotFound\<close> that the missing services raise
  when a ``guid/id does not resolve'' (section 7), as the class
  \<^verbatim>\<open>ResourceDoesNotExistException\<close> that the source imports for it.
\<close>

definition resource_not_found :: "string \<Rightarrow> exn" where
  "resource_not_found what = ServerError ResourceDoesNotExistException what None"

text \<open>
  Modelled from the spec: \<^verbatim>\<open>demo_service.create_demo\<close> is missing. \<open>createSession\<close> of
  section 4.1 ``generates a new globally-unique, non-guessable guid'' (\<open>new_guid\<close>, as
  the generator hands it out), ``provisions one seed User with username/email derived
  deterministically from the guid and exactly one Role named \<open>supplychainmanager\<close>'';
  \<open>provisioning\<close> is the outcome of provisioning the seed user at the backend, and
  ``any failure aborts creation with no partial DemoSession left behind''.
\<close>

definition createSession ::
  "string \<Rightarrow> int \<Rightarrow> exn option \<Rightarrow> session_store \<Rightarrow> (exn + demo_session) \<times> session_store" where
  "createSession new_guid now provisioning st =
     (case provisioning of
        Some e \<Rightarrow> (Inl e, st)
      | None \<Rightarrow>
          (let n = next_id st;
               seed_role = \<lparr>role_id = n + 2, role_name = ''supplychainmanager'',
                            role_created = now, role_modified = now\<rparr>;
               seed_user = \<lparr>user_id = n + 1, demoId = n,
                            username = ''Supply Chain Manager ('' @ new_guid @ '')'',
                            email = ''chris.'' @ new_guid @ ''@acme.com'',
                            roles = [seed_role]\<rparr>;
               demo = \<lparr>demo_id = n, guid = new_guid, displayName = ''Demo '' @ new_guid,
                       createdAt = now, users = [seed_user]\<rparr>
           in (Inr demo, st\<lparr>sessions := AList.update new_guid demo (sessions st),
                               next_id := n + 3\<rparr>)))"

text \<open>
  Modelled from the spec: \<^verbatim>\<open>demo_service.get_demo_by_guid\<close> is missing.
  \<open>getSessionByGuid\<close> of section 4.1 ``fails with \<open>ResourceNotFound\<close> if no session has
  that guid''.
\<close>

definition getSessionByGuid :: "string \<Rightarrow> session_store \<Rightarrow> exn + demo_session" where
  "getSessionByGuid g st =
     (case map_of (sessions st) g of
        None \<Rightarrow> Inl (resource_not_found ''Demo does not exist'')
      | Some demo \<Rightarrow> Inr demo)"

text \<open>
  Modelled from the spec: \<^verbatim>\<open>demo_service.delete_demo_by_guid\<close> is missing.
  \<open>deleteSessionByGuid\<close> of section 4.1 ``fails with \<open>ResourceNotFound\<close> if absent;
  otherwise removes the session and all its Users''.
\<close>

definition deleteSessionByGuid :: "string \<Rightarrow> session_store \<Rightarrow> exn option \<times> session_store" where
  "deleteSessionByGuid g st =
     (case map_of (sessions st) g of
        None \<Rightarrow> (Some (resource_not_found ''Demo does not exist''), st)
      | Some demo \<Rightarrow> (None, st\<lparr>sessions := AList.delete g (sessions st)\<rparr>))"

text \<open>
  Modelled from the spec: \<^verbatim>\<open>user_service.create_user\<close> is missing.
  \<open>addUserForRetailer\<close> of section 4.1 ``fails with \<open>ResourceNotFound\<close> if the session
  does not exist; constructs a new User scoped to that DemoSession, with no default
  Role'', ``appended to the session's user sequence''.
\<close>

definition addUserForRetailer ::
  "string \<Rightarrow> string \<Rightarrow> session_store \<Rightarrow> (exn + user) \<times> session_store" where
  "addUserForRetailer g retailer_id st =
     (case map_of (sessions st) g of
        None \<Rightarrow> (Inl (resource_not_found ''Demo does not exist''), st)
      | Some demo \<Rightarrow>
          (let n = next_id st;
               u = \<lparr>user_id = n, demoId = demo_id demo,
                    username = ''Retail Store Manager ('' @ retailer_id @ '')'',
                    email = ''ruth.'' @ retailer_id @ ''@acme.com'', roles = []\<rparr>
           in (Inr u, st\<lparr>sessions := AList.update g (demo\<lparr>users := users demo @ [u]\<rparr>) (sessions st),
                            next_id := n + 1\<rparr>)))"

text \<open>
  The history of a store: the operations of the Session Store, applied one after the
  other, and the guids of the sessions that \<open>createSession\<close> has returned in a history
  (a creation whose provisioning fails returns none).
\<close>

datatype store_op =
    Create string int "exn option"
  | Delete string
  | AddUser string string

fun apply_op :: "store_op \<Rightarrow> session_store \<Rightarrow> session_store" where
  "apply_op (Create new_guid now provisioning) st = snd (createSession new_guid now provisioning st)"
| "apply_op (Delete g) st = snd (deleteSessionByGuid g st)"
| "apply_op (AddUser g retailer_id) st = snd (addUserForRetailer g retailer_id st)"

fun run :: "store_op list \<Rightarrow> session_store \<Rightarrow> session_store" where
  "run [] st = st"
| "run (x # ops) st = run ops (apply_op x st)"

fun produced :: "store_op list \<Rightarrow> string list" where
  "produced [] = []"
| "produced (Create new_guid now None # ops) = new_guid # produced ops"
| "produced (x # ops) = produced ops"

text \<open>
  Modelled from the spec: the encoding of a token is missing (\<^verbatim>\<open>server.web.utils\<close>
  makes it). By section 4.2 it is ``a signed, tamper-evident encoding'' of the token's
  fields: the payload with a signature, or text that is no encoding at all.
\<close>

datatype 's encoding = Signed "(string \<times> pyval) list" 's | Malformed string

text \<open>
  Modelled from the spec: \<^verbatim>\<open>web_utils.tokenize\<close> is missing. \<open>issue\<close> of section 4.2
  ``produces a signed, tamper-evident encoding''; the ``signature uses a process-wide
  secret'', through the signing function \<open>sign\<close>.
\<close>

definition tokenize ::
  "('k \<Rightarrow> (string \<times> pyval) list \<Rightarrow> 's) \<Rightarrow> 'k \<Rightarrow> (string \<times> pyval) list \<Rightarrow> exn + 's encoding" where
  "tokenize sign secret payload = Inr (Signed payload (sign secret payload))"

text \<open>
  Modelled from the spec: \<^verbatim>\<open>web_utils.detokenize\<close> is missing. \<open>decode\<close> of section 4.2
  ``fails with \<open>TokenInvalid\<close> if the signature does not verify or the encoding is
  malformed; [it] does not itself check expiry or session existence''.
\<close>

fun detokenize ::
  "('k \<Rightarrow> (string \<times> pyval) list \<Rightarrow> 's) \<Rightarrow> 'k \<Rightarrow> 's encoding \<Rightarrow> exn + (string \<times> pyval) list" where
  "detokenize sign secret (Signed payload s) =
     (if s = sign secret payload then Inr payload
      else Inl (ServerError TokenException ''Error decoding JWT'' None))"
| "detokenize sign secret (Malformed text) = Inl (ServerError TokenException ''Error decoding JWT'' None)"

text \<open>
  Modelled from the spec: \<^verbatim>\<open>user_service.login\<close> is missing. \<open>login\<close> of section 4.3, up
  to the issue of the token, ``resolves the session, fails with \<open>ResourceNotFound\<close> if
  the session or the userId within it does not exist, exchanges identity for a
  downstream credential via [the] user-auth call (fails with \<open>AuthenticationFailed\<close> if
  the backend rejects it)''. The dictionary it returns holds the fields of the
  \<open>AuthToken\<close>; the source reads the credential under the key \<^verbatim>\<open>loopback_token\<close>.
\<close>

definition login ::
  "(string \<Rightarrow> nat \<Rightarrow> string option) \<Rightarrow> string \<Rightarrow> pyval \<Rightarrow> session_store
     \<Rightarrow> (exn + (string \<times> pyval) list) \<times> session_store" where
  "login authenticateUser g uid st =
     (case map_of (sessions st) g of
        None \<Rightarrow> (Inl (resource_not_found ''Demo does not exist''), st)
      | Some demo \<Rightarrow>
          (case find (\<lambda>u. uid = PInt (int (user_id u))) (users demo) of
             None \<Rightarrow> (Inl (resource_not_found ''User does not exist''), st)
           | Some u \<Rightarrow>
               (case authenticateUser g (user_id u) of
                  None \<Rightarrow> (Inl (ServerError AuthenticationException ''Authentication failed'' None), st)
                | Some credential \<Rightarrow>
                    (Inr [(''loopback_token'', PStr credential),
                          (''demoGuid'', PStr g),
                          (''userId'', uid)], st))))"


section \<open>Example values\<close>

text \<open>
  Concrete contexts, services and requests, on which the theorems below are
  instantiated. \<open>example_guard\<close> lets a context pass when its \<^verbatim>\<open>auth\<close> is a dictionary.
\<close>

definition example_ctx :: g where
  "example_ctx = \<lparr>auth = Assigned (PDict [(''loopback_token'', PStr ''credential'')])\<rparr>"

fun example_guard :: "g \<Rightarrow> exn option" where
  "example_guard ctx =
     (case auth ctx of
        Assigned (PDict d) \<Rightarrow> None
      | _ \<Rightarrow> Some (ServerError AuthenticationException ''No existing session'' None))"

definition example_loads :: "string \<Rightarrow> pyval option" where
  "example_loads s =
     (if s = ''[]'' then Some (PList [])
      else if s = ''[1]'' then Some (PList [PInt 1])
      else if s = ''[2]'' then Some (PList [PInt 2])
      else None)"

fun example_str :: "exn \<Rightarrow> string" where
  "example_str (PyError c m) = m"
| "example_str (ServerError c m d) = m"
| "example_str (BadRequest m) = m"

definition erp_all_return :: erp where
  "erp_all_return =
     \<lparr>get_shipments = (\<lambda>t. Some (Inr ''[1]'')),
      get_distribution_centers = (\<lambda>t. Some (Inr ''[2]'')),
      get_retailers = (\<lambda>t. Some (Inr ''[]''))\<rparr>"

definition erp_retailers_fail :: erp where
  "erp_retailers_fail =
     \<lparr>get_shipments = (\<lambda>t. Some (Inr ''[1]'')),
      get_distribution_centers = (\<lambda>t. Some (Inr ''[2]'')),
      get_retailers = (\<lambda>t. Some (Inl (ServerError AuthenticationException ''Invalid token'' None)))\<rparr>"

definition erp_shipments_hang :: erp where
  "erp_shipments_hang =
     \<lparr>get_shipments = (\<lambda>t. None),
      get_distribution_centers = (\<lambda>t. Some (Inr ''[2]'')),
      get_retailers = (\<lambda>t. Some (Inr ''[]''))\<rparr>"

text \<open>
  A signing function, a world that is the list of the credentials revoked so far with
  the \<^verbatim>\<open>logout\<close> that revokes one, a backend that gives every user a credential, and a
  request that is nothing but the token it presents.
\<close>

definition example_sign :: "nat \<Rightarrow> (string \<times> pyval) list \<Rightarrow> nat" where
  "example_sign secret payload = secret + length payload"

definition revoke :: "pyval \<Rightarrow> pyval list \<Rightarrow> exn option \<times> pyval list" where
  "revoke credential revoked = (None, credential # revoked)"

definition example_backend :: "string \<Rightarrow> nat \<Rightarrow> string option" where
  "example_backend g uid = Some ''credential''"

definition presented :: "'tok \<Rightarrow> exn + 'tok option" where
  "presented request = Inr (Some request)"

text \<open>
  Two tokens under the secret \<open>7\<close>: one that the codec has issued, and text that is no
  encoding.
\<close>

definition example_payload :: "(string \<times> pyval) list" where
  "example_payload = [(''loopback_token'', PStr ''credential'')]"

definition valid_token :: "nat encoding" where
  "valid_token = Signed example_payload (example_sign 7 example_payload)"

definition garbage :: "nat encoding" where
  "garbage = Malformed ''garbage''"



text \<open>
  The session that \<open>createSession\<close> makes in the empty store for the guid \<open>G1\<close> at time
  \<open>0\<close>, the store that holds it, and a login request for its seed user.
\<close>

definition example_demo :: demo_session where
  "example_demo =
     \<lparr>demo_id = 1, guid = ''G1'', displayName = ''Demo G1'', createdAt = 0,
      users = [\<lparr>user_id = 2, demoId = 1, username = ''Supply Chain Manager (G1)'',
                email = ''chris.G1@acme.com'',
                roles = [\<lparr>role_id = 3, role_name = ''supplychainmanager'',
                          role_created = 0, role_modified = 0\<rparr>]\<rparr>]\<rparr>"

definition example_store :: session_store where
  "example_store = \<lparr>sessions = [(''G1'', example_demo)], next_id = 4\<rparr>"

definition login_body :: "unit \<Rightarrow> exn + pyval" where
  "login_body request = Inr (PDict [(''userId'', PInt 2)])"

text \<open>
  Requests without a JSON object: one that does not claim to carry JSON, and one that
  claims to and has an empty body. And the two ways in which
  \<^verbatim>\<open>get_token_from_request\<close> can report that a request has no token.
\<close>

definition no_json :: "unit \<Rightarrow> exn + pyval" where
  "no_json request = Inr PNone"

definition bad_json :: "unit \<Rightarrow> exn + pyval" where
  "bad_json request = Inl (BadRequest ''Failed to decode JSON object'')"

definition token_missing_raises :: "unit \<Rightarrow> exn + 'tok option" where
  "token_missing_raises request =
     Inl (ServerError TokenException ''Unable to get token from request'' None)"


section \<open>Properties of the worker pool\<close>

lemma collect_Some_iff: "collect outs = Some rs \<longleftrightarrow> outs = map (\<lambda>r. Some (Inr r)) rs"
  by (induction outs arbitrary: rs rule: collect.induct) auto

lemma collect_None_hang: "i < length outs \<Longrightarrow> outs ! i = None \<Longrightarrow> collect outs = None"
proof (cases "collect outs")
  case None
  then show ?thesis .
next
  case (Some rs)
  assume "i < length outs" "outs ! i = None"
  with Some show ?thesis by (simp add: collect_Some_iff)
qed

lemma await_failure:
  "\<exists>i\<in>set order. i < length outs \<and> (\<exists>e. outs ! i = Some (Inl e)) \<Longrightarrow>
   \<exists>i e. i < length outs \<and> outs ! i = Some (Inl e) \<and> await order outs = Some (Inl e)"
proof (induction order)
  case Nil
  then show ?case by simp
next
  case (Cons j order)
  show ?case
  proof (cases "j < length outs \<and> (\<exists>e. outs ! j = Some (Inl e))")
    case True
    then obtain e where "j < length outs" "outs ! j = Some (Inl e)" by blast
    then have "await (j # order) outs = Some (Inl e)" by simp
    with \<open>j < length outs\<close> \<open>outs ! j = Some (Inl e)\<close> show ?thesis by blast
  next
    case False
    then have same: "await (j # order) outs = await order outs"
      by (auto split: option.splits sum.splits)
    from False Cons.prems
    have "\<exists>i\<in>set order. i < length outs \<and> (\<exists>e. outs ! i = Some (Inl e))" by auto
    from Cons.IH [OF this] same show ?thesis by simp
  qed
qed

lemma await_success: "await order outs = Some (Inr rs) \<Longrightarrow> collect outs = Some rs"
  by (induction order) (auto split: if_splits option.splits sum.splits)

lemma await_all_success: "collect outs = Some rs \<Longrightarrow> await order outs = Some (Inr rs)"
  by (induction order) (auto simp: collect_Some_iff)

lemma await_no_failure:
  "\<forall>i<length outs. \<forall>e. outs ! i \<noteq> Some (Inl e) \<Longrightarrow> await order outs = map_option Inr (collect outs)"
  by (induction order) (auto split: option.splits sum.splits)

lemma length_outcomes: "length (outcomes services tok) = 3"
  by (simp add: outcomes_def erp_calls_def)

lemma pool_map_outcomes:
  "pool_map order async_helper (erp_calls services tok) = await order (outcomes services tok)"
  by (simp add: pool_map_def outcomes_def)

lemma collect_total: "\<forall>i<length outs. \<exists>r. outs ! i = Some (Inr r) \<Longrightarrow> \<exists>rs. collect outs = Some rs"
proof (induction outs)
  case Nil
  then show ?case by simp
next
  case (Cons a outs)
  from Cons.prems have "\<exists>r. (a # outs) ! 0 = Some (Inr r)" by blast
  then obtain r where a: "a = Some (Inr r)" by auto
  have "\<forall>i<length outs. \<exists>r. outs ! i = Some (Inr r)"
  proof (intro allI impI)
    fix i assume "i < length outs"
    then have "Suc i < length (a # outs)" by simp
    with Cons.prems have "\<exists>r. (a # outs) ! Suc i = Some (Inr r)" by blast
    then show "\<exists>r. outs ! i = Some (Inr r)" by simp
  qed
  from Cons.IH [OF this] a show ?case by auto
qed

lemma arrival_order_mem:
  "arrival_order order outs \<Longrightarrow> i < length outs \<Longrightarrow> outs ! i = Some x \<Longrightarrow> i \<in> set order"
  by (simp add: arrival_order_def)

lemma await_arrival_failure:
  assumes "arrival_order order outs" and "i < length outs" and "outs ! i = Some (Inl cause)"
  shows "\<exists>j e. j < length outs \<and> outs ! j = Some (Inl e) \<and> await order outs = Some (Inl e)"
proof -
  have "i \<in> set order" by (rule arrival_order_mem [OF assms])
  with assms(2,3)
  have "\<exists>i\<in>set order. i < length outs \<and> (\<exists>e. outs ! i = Some (Inl e))" by blast
  then show ?thesis by (rule await_failure)
qed

lemma body_with_token:
  "auth ctx = Assigned a \<Longrightarrow> getitem a ''loopback_token'' = Inr tok \<Longrightarrow>
   load_admin_data_body services json_loads to_str order ctx =
     (case await order (outcomes services tok) of
        None \<Rightarrow> None
      | Some (Inl e) \<Rightarrow>
          Some (Inl (ServerError APIException ''Error retrieving admin data view'' (Some (to_str e))))
      | Some (Inr results) \<Rightarrow> Some (admin_response json_loads results))"
  by (simp add: load_admin_data_body_def getattr_auth_def pool_map_outcomes)

lemma admin_response_not_server:
  "admin_response json_loads results \<noteq> Inl (ServerError c m d)"
  by (simp add: admin_response_def index_def loads_def split: sum.splits option.splits)

lemma getitem_not_server: "getitem a k \<noteq> Inl (ServerError c m d)"
  by (cases a) (simp_all split: option.splits)

lemma body_not_timeout:
  "load_admin_data_body services json_loads to_str order ctx \<noteq>
     Some (Inl (ServerError AggregationTimeout m d))"
  by (auto simp: load_admin_data_body_def getattr_auth_def admin_response_not_server
      getitem_not_server split: attr.splits sum.splits option.splits)

section \<open>Claims about the admin view\<close>

text \<open>
  C1. Whenever the guard lets \<^verbatim>\<open>load_admin_data\<close> run, the context carries a credential
  and at least one of the three calls (shipments, distribution centers, retailers)
  fails, the whole operation fails with one \<^verbatim>\<open>APIException\<close> whose internal details are
  the \<^verbatim>\<open>str\<close> of one failed call's exception; being a failure, it carries no result of
  the calls that succeeded.
\<close>

theorem load_admin_data_fail_fast:
  assumes "logged_in ctx = None"
    and "auth ctx = Assigned a"
    and "getitem a ''loopback_token'' = Inr tok"
    and "arrival_order order (outcomes services tok)"
    and "i < 3"
    and "outcomes services tok ! i = Some (Inl cause)"
  shows "\<exists>j e. j < 3 \<and> outcomes services tok ! j = Some (Inl e) \<and>
           load_admin_data logged_in services json_loads to_str order ctx =
             Some (Inl (ServerError APIException ''Error retrieving admin data view''
                          (Some (to_str e))))"
proof -
  let ?outs = "outcomes services tok"
  from assms(5) have len: "i < length ?outs" by (simp add: length_outcomes)
  from await_arrival_failure [OF assms(4) len assms(6)] obtain j e where
    j: "j < length ?outs" "?outs ! j = Some (Inl e)" "await order ?outs = Some (Inl e)"
    by blast
  have "load_admin_data logged_in services json_loads to_str order ctx =
          Some (Inl (ServerError APIException ''Error retrieving admin data view''
                       (Some (to_str e))))"
    using assms(1) j(3) by (simp add: load_admin_data_def body_with_token [OF assms(2,3)])
  with j(1,2) show ?thesis by (auto simp: length_outcomes)
qed

theorem load_admin_data_fail_fast_witness:
  "\<exists>j e. j < 3 \<and> outcomes erp_retailers_fail (PStr ''credential'') ! j = Some (Inl e) \<and>
          load_admin_data example_guard erp_retailers_fail example_loads example_str [0, 2, 1]
              example_ctx =
            Some (Inl (ServerError APIException ''Error retrieving admin data view''
                         (Some (example_str e))))"
proof (rule load_admin_data_fail_fast
    [where i = 2 and cause = "ServerError AuthenticationException ''Invalid token'' None"
       and a = "PDict [(''loopback_token'', PStr ''credential'')]"])
  show "example_guard example_ctx = None" by (simp add: example_ctx_def)
  show "auth example_ctx = Assigned (PDict [(''loopback_token'', PStr ''credential'')])"
    by (simp add: example_ctx_def)
  show "getitem (PDict [(''loopback_token'', PStr ''credential'')]) ''loopback_token'' =
          Inr (PStr ''credential'')" by simp
  show "arrival_order [0, 2, 1] (outcomes erp_retailers_fail (PStr ''credential''))"
    by (simp add: arrival_order_def outcomes_def erp_calls_def erp_retailers_fail_def
        async_helper_def upt_rec) auto
  show "(2::nat) < 3" by simp
  show "outcomes erp_retailers_fail (PStr ''credential'') ! 2 =
          Some (Inl (ServerError AuthenticationException ''Invalid token'' None))"
    by (simp add: outcomes_def erp_calls_def erp_retailers_fail_def async_helper_def)
qed

lemma load_admin_data_success:
  "load_admin_data logged_in services json_loads to_str order ctx = Some (Inr resp) \<Longrightarrow>
   \<exists>a tok results. logged_in ctx = None \<and> auth ctx = Assigned a \<and>
      getitem a ''loopback_token'' = Inr tok \<and>
      await order (outcomes services tok) = Some (Inr results) \<and>
      admin_response json_loads results = Inr resp"
  by (auto simp: load_admin_data_def load_admin_data_body_def getattr_auth_def
      pool_map_outcomes split: option.splits sum.splits attr.splits)

lemma outcomes_all_return:
  assumes "collect (outcomes services tok) = Some results"
  shows "\<exists>r0 r1 r2. results = [r0, r1, r2] \<and> get_shipments services tok = Some (Inr r0) \<and>
           get_distribution_centers services tok = Some (Inr r1) \<and>
           get_retailers services tok = Some (Inr r2)"
proof -
  from assms have eq: "outcomes services tok = map (\<lambda>r. Some (Inr r)) results"
    by (simp add: collect_Some_iff)
  then have "length results = 3" using length_outcomes [of services tok] by simp
  then obtain r0 r1 r2 where r: "results = [r0, r1, r2]"
    by (auto simp: length_Suc_conv numeral_3_eq_3)
  with eq show ?thesis by (simp add: outcomes_def erp_calls_def async_helper_def)
qed

lemma admin_response_three:
  "admin_response json_loads [r0, r1, r2] = Inr resp \<Longrightarrow>
   \<exists>v0 v1 v2. json_loads r0 = Some v0 \<and> json_loads r1 = Some v1 \<and> json_loads r2 = Some v2 \<and>
      resp = \<lparr>body = PDict [(''shipments'', v0), (''distribution-centers'', v1), (''retailers'', v2)],
              status = 200, mimetype = ''application/json''\<rparr>"
  by (auto simp: admin_response_def index_def loads_def split: option.splits)

text \<open>
  C2. When \<^verbatim>\<open>load_admin_data\<close> succeeds for one arrival order of the three calls, it
  returns the same response for every other order, and the body of the response has
  exactly the keys \<^verbatim>\<open>shipments\<close>, \<^verbatim>\<open>distribution-centers\<close> and \<^verbatim>\<open>retailers\<close>, one per
  call, each holding the (parsed) result of its own call.
\<close>

theorem load_admin_data_order_independent:
  assumes "load_admin_data logged_in services json_loads to_str order ctx = Some (Inr resp)"
  shows "load_admin_data logged_in services json_loads to_str order' ctx = Some (Inr resp) \<and>
         (\<exists>a tok r0 r1 r2 v0 v1 v2.
            auth ctx = Assigned a \<and> getitem a ''loopback_token'' = Inr tok \<and>
            get_shipments services tok = Some (Inr r0) \<and> json_loads r0 = Some v0 \<and>
            get_distribution_centers services tok = Some (Inr r1) \<and> json_loads r1 = Some v1 \<and>
            get_retailers services tok = Some (Inr r2) \<and> json_loads r2 = Some v2 \<and>
            body resp = PDict [(''shipments'', v0), (''distribution-centers'', v1),
                               (''retailers'', v2)])"
proof -
  from load_admin_data_success [OF assms] obtain a tok results where
    ok: "logged_in ctx = None" "auth ctx = Assigned a" "getitem a ''loopback_token'' = Inr tok"
      "await order (outcomes services tok) = Some (Inr results)"
      "admin_response json_loads results = Inr resp"
    by blast
  from ok(4) have col: "collect (outcomes services tok) = Some results"
    by (rule await_success)
  then have "await order' (outcomes services tok) = Some (Inr results)"
    by (rule await_all_success)
  with ok have same: "load_admin_data logged_in services json_loads to_str order' ctx = Some (Inr resp)"
    by (simp add: load_admin_data_def body_with_token [OF ok(2,3)])
  from outcomes_all_return [OF col] obtain r0 r1 r2 where
    r: "results = [r0, r1, r2]" "get_shipments services tok = Some (Inr r0)"
      "get_distribution_centers services tok = Some (Inr r1)"
      "get_retailers services tok = Some (Inr r2)"
    by blast
  from ok(5) r(1) have "admin_response json_loads [r0, r1, r2] = Inr resp" by simp
  from admin_response_three [OF this] obtain v0 v1 v2 where
    v: "json_loads r0 = Some v0" "json_loads r1 = Some v1" "json_loads r2 = Some v2"
      "body resp = PDict [(''shipments'', v0), (''distribution-centers'', v1), (''retailers'', v2)]"
    by auto
  from same ok(2,3) r(2-4) v show ?thesis by blast
qed

theorem load_admin_data_order_independent_witness:
  "load_admin_data example_guard erp_all_return example_loads example_str [0, 1, 2] example_ctx =
     Some (Inr \<lparr>body = PDict [(''shipments'', PList [PInt 1]),
                                (''distribution-centers'', PList [PInt 2]),
                                (''retailers'', PList [])],
                  status = 200, mimetype = ''application/json''\<rparr>) \<and>
   load_admin_data example_guard erp_all_return example_loads example_str [2, 0, 1] example_ctx =
     Some (Inr \<lparr>body = PDict [(''shipments'', PList [PInt 1]),
                                (''distribution-centers'', PList [PInt 2]),
                                (''retailers'', PList [])],
                  status = 200, mimetype = ''application/json''\<rparr>)"
proof -
  have run: "load_admin_data example_guard erp_all_return example_loads example_str [0, 1, 2]
      example_ctx =
     Some (Inr \<lparr>body = PDict [(''shipments'', PList [PInt 1]),
                                (''distribution-centers'', PList [PInt 2]),
                                (''retailers'', PList [])],
                  status = 200, mimetype = ''application/json''\<rparr>)"
    by (simp add: load_admin_data_def load_admin_data_body_def getattr_auth_def example_ctx_def
        pool_map_def erp_calls_def erp_all_return_def async_helper_def admin_response_def
        index_def loads_def example_loads_def)
  from load_admin_data_order_independent [OF run, of "[2, 0, 1]"] run show ?thesis by simp
qed

text \<open>
  C3 (as amended). \<^verbatim>\<open>load_admin_data\<close> takes no timeout. Once the guard has let it run
  it never fails with \<open>AggregationTimeout\<close>, and, with a credential in the context, it
  never returns exactly when one of the three calls never completes and none of them
  fails: it waits for its calls without bound.
\<close>

theorem load_admin_data_waits_unbounded:
  assumes "logged_in ctx = None"
    and "auth ctx = Assigned a"
    and "getitem a ''loopback_token'' = Inr tok"
    and "arrival_order order (outcomes services tok)"
  shows "load_admin_data logged_in services json_loads to_str order ctx \<noteq>
           Some (Inl (ServerError AggregationTimeout m d)) \<and>
         (load_admin_data logged_in services json_loads to_str order ctx = None \<longleftrightarrow>
            (\<exists>i. i < 3 \<and> outcomes services tok ! i = None) \<and>
            (\<forall>i e. \<not> (i < 3 \<and> outcomes services tok ! i = Some (Inl e))))"
proof -
  let ?outs = "outcomes services tok"
  let ?run = "load_admin_data logged_in services json_loads to_str order ctx"
  have run: "?run = load_admin_data_body services json_loads to_str order ctx"
    using assms(1) by (simp add: load_admin_data_def)
  have no_timeout: "?run \<noteq> Some (Inl (ServerError AggregationTimeout m d))"
    unfolding run by (rule body_not_timeout)
  have hang: "?run = None \<longleftrightarrow>
      (\<exists>i. i < 3 \<and> ?outs ! i = None) \<and> (\<forall>i e. \<not> (i < 3 \<and> ?outs ! i = Some (Inl e)))"
  proof (cases "\<exists>i e. i < 3 \<and> ?outs ! i = Some (Inl e)")
    case True
    then obtain i e where "i < length ?outs" "?outs ! i = Some (Inl e)"
      by (auto simp: length_outcomes)
    from await_arrival_failure [OF assms(4) this] obtain e' where
      "await order ?outs = Some (Inl e')" by blast
    then have "?run \<noteq> None"
      unfolding run by (simp add: body_with_token [OF assms(2,3)])
    with True show ?thesis by blast
  next
    case False
    then have nofail: "\<forall>i<length ?outs. \<forall>e. ?outs ! i \<noteq> Some (Inl e)"
      by (simp add: length_outcomes)
    have aw: "await order ?outs = map_option Inr (collect ?outs)"
      by (rule await_no_failure [OF nofail])
    have "collect ?outs = None \<longleftrightarrow> (\<exists>i. i < 3 \<and> ?outs ! i = None)"
    proof
      assume none: "collect ?outs = None"
      show "\<exists>i. i < 3 \<and> ?outs ! i = None"
      proof (rule ccontr)
        assume "\<not> (\<exists>i. i < 3 \<and> ?outs ! i = None)"
        with nofail have "\<forall>i<length ?outs. \<exists>r. ?outs ! i = Some (Inr r)"
          by (metis length_outcomes not_Some_eq sum.exhaust_sel)
        from collect_total [OF this] none show False by simp
      qed
    next
      assume "\<exists>i. i < 3 \<and> ?outs ! i = None"
      then show "collect ?outs = None"
        by (auto simp: length_outcomes intro: collect_None_hang)
    qed
    moreover have "?run = None \<longleftrightarrow> collect ?outs = None"
      unfolding run by (simp add: body_with_token [OF assms(2,3)] aw split: option.splits)
    ultimately show ?thesis using False by simp
  qed
  from no_timeout hang show ?thesis by blast
qed

theorem load_admin_data_waits_unbounded_witness:
  "load_admin_data example_guard erp_shipments_hang example_loads example_str [2, 1] example_ctx \<noteq>
     Some (Inl (ServerError AggregationTimeout ''timed out'' None)) \<and>
   (load_admin_data example_guard erp_shipments_hang example_loads example_str [2, 1] example_ctx =
      None \<longleftrightarrow>
    (\<exists>i. i < 3 \<and> outcomes erp_shipments_hang (PStr ''credential'') ! i = None) \<and>
    (\<forall>i e. \<not> (i < 3 \<and> outcomes erp_shipments_hang (PStr ''credential'') ! i = Some (Inl e))))"
proof (rule load_admin_data_waits_unbounded
    [where a = "PDict [(''loopback_token'', PStr ''credential'')]"])
  show "example_guard example_ctx = None" by (simp add: example_ctx_def)
  show "auth example_ctx = Assigned (PDict [(''loopback_token'', PStr ''credential'')])"
    by (simp add: example_ctx_def)
  show "getitem (PDict [(''loopback_token'', PStr ''credential'')]) ''loopback_token'' =
          Inr (PStr ''credential'')" by simp
  show "arrival_order [2, 1] (outcomes erp_shipments_hang (PStr ''credential''))"
    by (simp add: arrival_order_def outcomes_def erp_calls_def erp_shipments_hang_def
        async_helper_def upt_rec) auto
qed

text \<open>
  C3 as stated fails: when the shipments call never completes and the two others
  return, \<^verbatim>\<open>load_admin_data\<close> does not fail with \<open>AggregationTimeout\<close>; it never returns.
\<close>

theorem load_admin_data_timeout_counterexample:
  "arrival_order [1, 2] (outcomes erp_shipments_hang (PStr ''credential'')) \<and>
   outcomes erp_shipments_hang (PStr ''credential'') ! 0 = None \<and>
   load_admin_data example_guard erp_shipments_hang example_loads example_str [1, 2] example_ctx =
     None"
proof -
  have "arrival_order [1, 2] (outcomes erp_shipments_hang (PStr ''credential''))"
    by (simp add: arrival_order_def outcomes_def erp_calls_def erp_shipments_hang_def
        async_helper_def upt_rec) auto
  moreover have "outcomes erp_shipments_hang (PStr ''credential'') ! 0 = None"
    by (simp add: outcomes_def erp_calls_def erp_shipments_hang_def async_helper_def)
  moreover have "load_admin_data example_guard erp_shipments_hang example_loads example_str
      [1, 2] example_ctx = None"
    by (simp add: load_admin_data_def load_admin_data_body_def getattr_auth_def example_ctx_def
        pool_map_def erp_calls_def erp_shipments_hang_def async_helper_def)
  ultimately show ?thesis by blast
qed

section \<open>Claims about login and logout\<close>

lemma demo_login_no_object:
  assumes "get_json request = Inr data" and "\<forall>d. data \<noteq> PDict d"
  shows "demo_login get_json check svc_login tok utcnow request g w =
           (Inl (PyError AttributeError ''get''), w)"
proof -
  from assms(2) have "dict_get data ''userId'' = Inl (PyError AttributeError ''get'')"
    by (cases data) simp_all
  with assms(1) show ?thesis by (simp add: demo_login_def)
qed

lemma demo_login_get_json_raises:
  "get_json request = Inl e \<Longrightarrow>
   demo_login get_json check svc_login tok utcnow request g w = (Inl e, w)"
  by (simp add: demo_login_def)

lemma bad_request_answer:
  "handle_user_exception derived unicode compose_error status_code (BadRequest m) =
     \<lparr>body = PDict [(''code'', PInt 400), (''message'', PStr ''Bad request.'')],
      status = 400, mimetype = ''application/json''\<rparr>"
  by (simp add: bad_request_handler_def)

text \<open>
  C10 (as amended). When \<^verbatim>\<open>request.get_json()\<close> returns \<^verbatim>\<open>None\<close> or another value that is
  not a JSON object, \<^verbatim>\<open>demo_login\<close> fails with \<^verbatim>\<open>AttributeError\<close> whatever the null-input
  check, the login service and the tokenizer are, leaves the state behind the services
  as it was, and the application reports the generic \<^verbatim>\<open>APIException('Server Error')\<close>.
  When \<^verbatim>\<open>request.get_json()\<close> raises, \<^verbatim>\<open>demo_login\<close> fails with that exception, again
  before any check or service call and with the state as it was; and the application
  answers a \<^verbatim>\<open>BadRequest\<close> through \<^verbatim>\<open>bad_request_handler\<close>, with status 400.
\<close>

theorem demo_login_without_json_object:
  "(get_json request = Inr data \<and> (\<forall>d. data \<noteq> PDict d) \<longrightarrow>
      demo_login get_json check svc_login tok utcnow request g w =
        (Inl (PyError AttributeError ''get''), w) \<and>
      handle_user_exception derived unicode compose_error status_code
          (PyError AttributeError ''get'') =
        \<lparr>body = compose_error
                  (ServerError APIException ''Server Error''
                     (Some (unicode (PyError AttributeError ''get''))))
                  (PyError AttributeError ''get''),
         status = status_code
                    (ServerError APIException ''Server Error''
                       (Some (unicode (PyError AttributeError ''get'')))),
         mimetype = ''application/json''\<rparr>) \<and>
   (get_json request = Inl e \<longrightarrow>
      demo_login get_json check svc_login tok utcnow request g w = (Inl e, w)) \<and>
   handle_user_exception derived unicode compose_error status_code (BadRequest m) =
     \<lparr>body = PDict [(''code'', PInt 400), (''message'', PStr ''Bad request.'')],
      status = 400, mimetype = ''application/json''\<rparr>"
proof (intro conjI impI)
  assume h: "get_json request = Inr data \<and> (\<forall>d. data \<noteq> PDict d)"
  then show "demo_login get_json check svc_login tok utcnow request g w =
      (Inl (PyError AttributeError ''get''), w)"
    by (simp add: demo_login_no_object)
  show "handle_user_exception derived unicode compose_error status_code
      (PyError AttributeError ''get'') =
    \<lparr>body = compose_error
              (ServerError APIException ''Server Error''
                 (Some (unicode (PyError AttributeError ''get''))))
              (PyError AttributeError ''get''),
     status = status_code
                (ServerError APIException ''Server Error''
                   (Some (unicode (PyError AttributeError ''get'')))),
     mimetype = ''application/json''\<rparr>"
    by (simp add: exception_handler_def Let_def)
next
  assume "get_json request = Inl e"
  then show "demo_login get_json check svc_login tok utcnow request g w = (Inl e, w)"
    by (rule demo_login_get_json_raises)
next
  show "handle_user_exception derived unicode compose_error status_code (BadRequest m) =
    \<lparr>body = PDict [(''code'', PInt 400), (''message'', PStr ''Bad request.'')],
     status = 400, mimetype = ''application/json''\<rparr>"
    by (rule bad_request_answer)
qed

theorem demo_login_without_json_object_witness:
  "demo_login no_json check_null_input (login example_backend) (tokenize example_sign 7)
       0 () ''G1'' example_store =
     (Inl (PyError AttributeError ''get''), example_store) \<and>
   handle_user_exception (\<lambda>c. True) example_str (\<lambda>exc e. PStr (example_str exc)) (\<lambda>exc. 500)
       (PyError AttributeError ''get'') =
     \<lparr>body = PStr ''Server Error'', status = 500, mimetype = ''application/json''\<rparr> \<and>
   demo_login bad_json check_null_input (login example_backend)
       (tokenize example_sign 7) 0 () ''G1'' example_store =
     (Inl (BadRequest ''Failed to decode JSON object''), example_store)"
proof -
  have none: "no_json () = Inr PNone \<and> (\<forall>d. PNone \<noteq> PDict d)"
    by (simp add: no_json_def)
  have raises: "bad_json () = Inl (BadRequest ''Failed to decode JSON object'')"
    by (simp add: bad_json_def)
  note inst = demo_login_without_json_object
    [where check = check_null_input and svc_login = "login example_backend"
       and tok = "tokenize example_sign 7" and utcnow = 0 and request = "()"
       and g = "''G1''" and w = example_store and derived = "\<lambda>c. True"
       and unicode = example_str and compose_error = "\<lambda>exc e. PStr (example_str exc)"
       and status_code = "\<lambda>exc. 500"]
  from inst [where get_json = no_json and data = PNone] none
  have first: "demo_login no_json check_null_input (login example_backend)
      (tokenize example_sign 7) 0 () ''G1'' example_store =
        (Inl (PyError AttributeError ''get''), example_store) \<and>
      handle_user_exception (\<lambda>c. True) example_str (\<lambda>exc e. PStr (example_str exc)) (\<lambda>exc. 500)
          (PyError AttributeError ''get'') =
        \<lparr>body = PStr ''Server Error'', status = 500, mimetype = ''application/json''\<rparr>"
    by simp
  from inst [where get_json = bad_json
      and e = "BadRequest ''Failed to decode JSON object''"] raises
  have second: "demo_login bad_json check_null_input
      (login example_backend) (tokenize example_sign 7) 0 () ''G1'' example_store =
    (Inl (BadRequest ''Failed to decode JSON object''), example_store)"
    by simp
  from first second show ?thesis by blast
qed

text \<open>
  C10 as stated fails: the login request claims to carry JSON and its body is empty, so
  \<^verbatim>\<open>request.get_json()\<close> does not yield \<^verbatim>\<open>None\<close> but raises \<^verbatim>\<open>BadRequest\<close>; the failure is
  answered with status 400 by \<^verbatim>\<open>bad_request_handler\<close>, not wrapped as an
  \<^verbatim>\<open>APIException\<close>.
\<close>

theorem demo_login_bad_request_counterexample:
  "bad_json () = Inl (BadRequest ''Failed to decode JSON object'') \<and>
   demo_login bad_json check_null_input (login example_backend) (tokenize example_sign 7)
       0 () ''G1'' example_store =
     (Inl (BadRequest ''Failed to decode JSON object''), example_store) \<and>
   handle_user_exception (\<lambda>c. True) example_str (\<lambda>exc e. PStr (example_str exc)) (\<lambda>exc. 500)
       (BadRequest ''Failed to decode JSON object'') =
     \<lparr>body = PDict [(''code'', PInt 400), (''message'', PStr ''Bad request.'')],
      status = 400, mimetype = ''application/json''\<rparr>"
  by (simp add: bad_json_def demo_login_def bad_request_handler_def)

lemma deauthenticate_other_token:
  assumes "get_token_from_request request = Inr request_token"
    and "request_token \<noteq> Some token"
  shows "deauthenticate get_token_from_request logout request ctx token w = (Inr ('''', 204), w)"
  using assms by (simp add: deauthenticate_def)

lemma deauthenticate_same_token:
  assumes "get_token_from_request request = Inr (Some token)"
    and "auth ctx = Assigned (PDict d)"
    and "map_of d ''loopback_token'' = Some credential"
    and "logout credential w = (None, w')"
  shows "deauthenticate get_token_from_request logout request ctx token w = (Inr ('''', 204), w')"
  using assms by (simp add: deauthenticate_def getattr_auth_def)

text \<open>
  C8 fails on the code at a logout whose presented token is the token of the request
  but cannot be decoded: \<^verbatim>\<open>setup_auth_from_request\<close> has set \<^verbatim>\<open>g.auth\<close> to \<^verbatim>\<open>None\<close>, and
  \<^verbatim>\<open>deauthenticate\<close> subscripts it. Nothing is revoked and the request ends in a
  \<^verbatim>\<open>TypeError\<close>.
\<close>

theorem logout_identical_undecodable_token:
  "logout_request presented (detokenize example_sign 7) revoke garbage garbage [] =
     (Inl (PyError TypeError ''loopback_token''), [])"
  by (simp add: logout_request_def setup_auth_from_request_def presented_def
      deauthenticate_def getattr_auth_def garbage_def)

lemma deauthenticate_token_unreadable:
  "get_token_from_request request = Inl e \<Longrightarrow>
   deauthenticate get_token_from_request logout request ctx token w = (Inl e, w)"
  by (simp add: deauthenticate_def)

text \<open>
  C9 (as amended). \<^verbatim>\<open>deauthenticate\<close> does not decode the presented token. Whatever the
  context is and whether the presented token is malformed, badly signed or valid: when
  \<^verbatim>\<open>get_token_from_request\<close> returns a token other than the presented one, or \<^verbatim>\<open>None\<close>,
  the logout completes with \<^verbatim>\<open>('', 204)\<close> and calls no downstream logout; and when
  \<^verbatim>\<open>get_token_from_request\<close> raises, a \<^verbatim>\<open>TokenException\<close> included, the logout fails
  with that exception and calls no downstream logout.
\<close>

theorem deauthenticate_ignores_other_token:
  "(get_token_from_request request = Inr request_token \<and> request_token \<noteq> Some token \<longrightarrow>
      deauthenticate get_token_from_request logout request ctx token w = (Inr ('''', 204), w)) \<and>
   (get_token_from_request request = Inl e \<longrightarrow>
      deauthenticate get_token_from_request logout request ctx token w = (Inl e, w))"
proof (intro conjI impI)
  assume "get_token_from_request request = Inr request_token \<and> request_token \<noteq> Some token"
  then show "deauthenticate get_token_from_request logout request ctx token w =
      (Inr ([], 204), w)"
    by (simp add: deauthenticate_other_token)
next
  assume "get_token_from_request request = Inl e"
  then show "deauthenticate get_token_from_request logout request ctx token w = (Inl e, w)"
    by (rule deauthenticate_token_unreadable)
qed

theorem deauthenticate_ignores_other_token_witness:
  "deauthenticate presented revoke valid_token example_ctx garbage [] = (Inr ([], 204), []) \<and>
   deauthenticate token_missing_raises revoke () example_ctx garbage [] =
     (Inl (ServerError TokenException ''Unable to get token from request'' None), [])"
proof -
  have returns: "presented valid_token = Inr (Some valid_token) \<and> Some valid_token \<noteq> Some garbage"
    by (simp add: presented_def valid_token_def garbage_def)
  have raises: "(token_missing_raises () :: exn + nat encoding option) =
      Inl (ServerError TokenException ''Unable to get token from request'' None)"
    by (simp add: token_missing_raises_def)
  note inst = deauthenticate_ignores_other_token
    [where logout = revoke and ctx = example_ctx and token = garbage and w = "[]"]
  from inst [where get_token_from_request = presented and request = valid_token
      and request_token = "Some valid_token"] returns
  have first: "deauthenticate presented revoke valid_token example_ctx garbage [] =
      (Inr ([], 204), [])"
    by simp
  from inst [where get_token_from_request = token_missing_raises and request = "()"
      and e = "ServerError TokenException ''Unable to get token from request'' None"] raises
  have second: "deauthenticate token_missing_raises revoke () example_ctx garbage [] =
      (Inl (ServerError TokenException ''Unable to get token from request'' None), [])"
    by simp
  from first second show ?thesis by blast
qed

text \<open>
  C9 as stated fails: the presented token is malformed, so decoding it raises
  \<^verbatim>\<open>TokenException\<close>, and the request carries another, valid token; the logout request
  succeeds.
\<close>

theorem logout_malformed_token_counterexample:
  "detokenize example_sign 7 garbage =
     Inl (ServerError TokenException ''Error decoding JWT'' None) \<and>
   logout_request presented (detokenize example_sign 7) revoke valid_token garbage [] =
     (Inr ([], 204), [])"
  by (simp add: logout_request_def setup_auth_from_request_def presented_def
      deauthenticate_def valid_token_def garbage_def)

lemma logout_identical_valid_token:
  "logout_request presented (detokenize example_sign 7) revoke valid_token valid_token [] =
     (Inr ([], 204), [PStr ''credential''])"
  by (simp add: logout_request_def setup_auth_from_request_def presented_def
      deauthenticate_def getattr_auth_def valid_token_def example_payload_def revoke_def)

section \<open>Claims about the authentication context\<close>








section \<open>Claims about demo sessions\<close>

lemma created_example:
  "create_demo (createSession ''G1'' 0 None) empty_store =
     (Inr \<lparr>body = example_demo, status = 201, mimetype = ''application/json''\<rparr>, example_store)"
  by (simp add: create_demo_def createSession_def empty_store_def example_demo_def
      example_store_def Let_def)

lemma get_demo_stored:
  "map_of (sessions st) g = Some demo \<Longrightarrow>
   get_demo check_null_input getSessionByGuid g st =
     Inr \<lparr>body = demo, status = 200, mimetype = ''application/json''\<rparr>"
  by (simp add: get_demo_def getSessionByGuid_def)

lemma get_demo_absent:
  "map_of (sessions st) g = None \<Longrightarrow>
   get_demo check_null_input getSessionByGuid g st =
     Inl (ServerError ResourceDoesNotExistException ''Demo does not exist'' None)"
  by (simp add: get_demo_def getSessionByGuid_def resource_not_found_def)

lemma delete_demo_absent:
  "map_of (sessions st) g = None \<Longrightarrow>
   delete_demo check_null_input deleteSessionByGuid g st =
     (Inl (ServerError ResourceDoesNotExistException ''Demo does not exist'' None), st)"
  by (simp add: delete_demo_def deleteSessionByGuid_def resource_not_found_def)

lemma delete_demo_done:
  "delete_demo check_null_input deleteSessionByGuid g st = (Inr r, st') \<Longrightarrow>
   map_of (sessions st') g = None"
  by (auto simp: delete_demo_def deleteSessionByGuid_def delete_conv'
      split: option.splits)

text \<open>
  C4. For every session that \<^verbatim>\<open>create_demo\<close> returns, \<^verbatim>\<open>get_demo\<close> on its guid returns
  that session with exactly one user, whose roles are exactly one role, named
  \<open>supplychainmanager\<close>.
\<close>

theorem created_demo_has_supplychainmanager:
  assumes "create_demo (createSession new_guid now provisioning) st = (Inr resp, st')"
  shows "\<exists>u r. get_demo check_null_input getSessionByGuid (guid (body resp)) st' =
             Inr \<lparr>body = body resp, status = 200, mimetype = ''application/json''\<rparr> \<and>
           users (body resp) = [u] \<and> roles u = [r] \<and> role_name r = ''supplychainmanager''"
proof (cases provisioning)
  case (Some e)
  with assms show ?thesis by (simp add: create_demo_def createSession_def)
next
  case None
  with assms have stored: "map_of (sessions st') (guid (body resp)) = Some (body resp)"
    and seed: "\<exists>u r. users (body resp) = [u] \<and> roles u = [r] \<and>
      role_name r = ''supplychainmanager''"
    by (auto simp: create_demo_def createSession_def Let_def update_conv')
  from get_demo_stored [OF stored] seed show ?thesis by blast
qed

theorem created_demo_has_supplychainmanager_witness:
  "\<exists>u r. get_demo check_null_input getSessionByGuid
             (guid (body \<lparr>body = example_demo, status = 201, mimetype = ''application/json''\<rparr>))
             example_store =
           Inr \<lparr>body = body \<lparr>body = example_demo, status = 201, mimetype = ''application/json''\<rparr>,
                status = 200, mimetype = ''application/json''\<rparr> \<and>
         users (body \<lparr>body = example_demo, status = 201, mimetype = ''application/json''\<rparr>) = [u] \<and>
         roles u = [r] \<and> role_name r = ''supplychainmanager''"
  by (rule created_demo_has_supplychainmanager [OF created_example])

lemma apply_op_guids:
  "fst ` set (sessions (apply_op x st)) \<subseteq> fst ` set (sessions st) \<union> set (produced [x])"
proof (cases x)
  case (Create new_guid now provisioning)
  then show ?thesis
    by (cases provisioning) (auto simp: createSession_def Let_def dom_update)
next
  case (Delete g)
  then show ?thesis
    using dom_delete_subset [of g "sessions st"]
    by (auto simp: deleteSessionByGuid_def split: option.splits)
next
  case (AddUser g retailer_id)
  then show ?thesis
    by (auto simp: addUserForRetailer_def Let_def dom_update split: option.splits
        dest!: map_of_SomeD intro: rev_image_eqI)
qed

lemma produced_Cons: "set (produced (x # ops)) = set (produced [x]) \<union> set (produced ops)"
  by (cases "(x # ops)" rule: produced.cases) auto

lemma run_guids:
  "fst ` set (sessions (run ops st)) \<subseteq> fst ` set (sessions st) \<union> set (produced ops)"
proof (induction ops arbitrary: st)
  case Nil
  then show ?case by simp
next
  case (Cons x ops)
  have "fst ` set (sessions (run (x # ops) st)) \<subseteq>
      fst ` set (sessions (apply_op x st)) \<union> set (produced ops)"
    using Cons.IH [of "apply_op x st"] by simp
  also have "\<dots> \<subseteq> (fst ` set (sessions st) \<union> set (produced [x])) \<union> set (produced ops)"
    using apply_op_guids [of x st] by blast
  also have "\<dots> = fst ` set (sessions st) \<union> set (produced (x # ops))"
    using produced_Cons [of x ops] by blast
  finally show ?case .
qed

lemma unproduced_absent:
  assumes "g \<notin> set (produced ops)"
  shows "map_of (sessions (run ops empty_store)) g = None"
proof -
  have "fst ` set (sessions (run ops empty_store)) \<subseteq> set (produced ops)"
    using run_guids [of ops empty_store] by (simp add: empty_store_def)
  with assms have "g \<notin> fst ` set (sessions (run ops empty_store))" by blast
  then show ?thesis by (simp add: map_of_eq_None_iff)
qed

text \<open>
  C5. In every store that a history of operations has made from the empty one, a guid
  that \<open>createSession\<close> has not produced makes both \<^verbatim>\<open>get_demo\<close> and \<^verbatim>\<open>delete_demo\<close> fail
  with \<^verbatim>\<open>ResourceDoesNotExistException\<close>; and after a \<^verbatim>\<open>delete_demo\<close> that succeeded,
  \<^verbatim>\<open>delete_demo\<close> of the same guid fails with it too.
\<close>

theorem unknown_guid_not_found:
  "(g \<notin> set (produced ops) \<longrightarrow>
      get_demo check_null_input getSessionByGuid g (run ops empty_store) =
        Inl (ServerError ResourceDoesNotExistException ''Demo does not exist'' None) \<and>
      delete_demo check_null_input deleteSessionByGuid g (run ops empty_store) =
        (Inl (ServerError ResourceDoesNotExistException ''Demo does not exist'' None),
         run ops empty_store)) \<and>
   (delete_demo check_null_input deleteSessionByGuid g st = (Inr r, st') \<longrightarrow>
      delete_demo check_null_input deleteSessionByGuid g st' =
        (Inl (ServerError ResourceDoesNotExistException ''Demo does not exist'' None), st'))"
proof (intro conjI impI)
  assume "g \<notin> set (produced ops)"
  then have absent: "map_of (sessions (run ops empty_store)) g = None"
    by (rule unproduced_absent)
  from absent show "get_demo check_null_input getSessionByGuid g (run ops empty_store) =
      Inl (ServerError ResourceDoesNotExistException ''Demo does not exist'' None)"
    by (rule get_demo_absent)
  from absent show "delete_demo check_null_input deleteSessionByGuid g (run ops empty_store) =
      (Inl (ServerError ResourceDoesNotExistException ''Demo does not exist'' None),
       run ops empty_store)"
    by (rule delete_demo_absent)
next
  assume "delete_demo check_null_input deleteSessionByGuid g st = (Inr r, st')"
  then have "map_of (sessions st') g = None" by (rule delete_demo_done)
  then show "delete_demo check_null_input deleteSessionByGuid g st' =
      (Inl (ServerError ResourceDoesNotExistException ''Demo does not exist'' None), st')"
    by (rule delete_demo_absent)
qed

theorem unknown_guid_not_found_witness:
  "run [Create ''G1'' 0 None] empty_store = example_store \<and>
   ''ABC123'' \<notin> set (produced [Create ''G1'' 0 None]) \<and>
   get_demo check_null_input getSessionByGuid ''ABC123'' example_store =
     Inl (ServerError ResourceDoesNotExistException ''Demo does not exist'' None) \<and>
   delete_demo check_null_input deleteSessionByGuid ''ABC123'' example_store =
     (Inl (ServerError ResourceDoesNotExistException ''Demo does not exist'' None), example_store) \<and>
   delete_demo check_null_input deleteSessionByGuid ''G1'' example_store =
     (Inr ([], 204), \<lparr>sessions = [], next_id = 4\<rparr>) \<and>
   delete_demo check_null_input deleteSessionByGuid ''G1'' \<lparr>sessions = [], next_id = 4\<rparr> =
     (Inl (ServerError ResourceDoesNotExistException ''Demo does not exist'' None),
      \<lparr>sessions = [], next_id = 4\<rparr>)"
proof -
  have made: "run [Create ''G1'' 0 None] empty_store = example_store"
    by (simp add: createSession_def empty_store_def example_demo_def example_store_def Let_def)
  have fresh: "''ABC123'' \<notin> set (produced [Create ''G1'' 0 None])" by simp
  have deleted: "delete_demo check_null_input deleteSessionByGuid ''G1'' example_store =
      (Inr ([], 204), \<lparr>sessions = [], next_id = 4\<rparr>)"
    by (simp add: delete_demo_def deleteSessionByGuid_def example_store_def)
  from unknown_guid_not_found [of "''ABC123''" "[Create ''G1'' 0 None]"] fresh made
  have unknown: "get_demo check_null_input getSessionByGuid ''ABC123'' example_store =
      Inl (ServerError ResourceDoesNotExistException ''Demo does not exist'' None) \<and>
    delete_demo check_null_input deleteSessionByGuid ''ABC123'' example_store =
      (Inl (ServerError ResourceDoesNotExistException ''Demo does not exist'' None), example_store)"
    by simp
  from unknown_guid_not_found
    [where g = "''G1''" and st = example_store and st' = "\<lparr>sessions = [], next_id = 4\<rparr>"
       and r = "([], 204)"] deleted
  have again: "delete_demo check_null_input deleteSessionByGuid ''G1'' \<lparr>sessions = [], next_id = 4\<rparr> =
      (Inl (ServerError ResourceDoesNotExistException ''Demo does not exist'' None),
       \<lparr>sessions = [], next_id = 4\<rparr>)"
    by blast
  from made fresh unknown deleted again show ?thesis by blast
qed

lemma login_known_user:
  assumes "map_of (sessions st) g = Some demo"
    and "u \<in> set (users demo)"
    and "authenticateUser g (user_id u) = Some credential"
  shows "login authenticateUser g (PInt (int (user_id u))) st =
           (Inr [(''loopback_token'', PStr credential), (''demoGuid'', PStr g),
                 (''userId'', PInt (int (user_id u)))], st)"
proof -
  let ?P = "\<lambda>v. PInt (int (user_id u)) = PInt (int (user_id v))"
  from assms(2) have "\<exists>v\<in>set (users demo). ?P v" by blast
  then have "find ?P (users demo) \<noteq> None" by (auto simp: find_None_iff)
  then obtain v where v: "find ?P (users demo) = Some v" by blast
  then have "?P v" by (auto simp: find_Some_iff)
  then have "user_id v = user_id u" by simp
  with assms(1,3) v show ?thesis by (simp add: login_def)
qed

text \<open>
  C6. For every session of the store, every user of it and every login request that
  names this user, when the backend grants a credential, \<^verbatim>\<open>demo_login\<close> answers with a
  token (in the body and in the \<^verbatim>\<open>auth_token\<close> cookie) that
  \<^verbatim>\<open>setup_auth_from_request\<close> accepts on every request presenting it: the context is
  bound to the decoded token, whose \<open>demoGuid\<close> and \<open>userId\<close> are the guid and the user
  id given to the login, and whose \<^verbatim>\<open>exp\<close> is 14 days after the login.
\<close>

theorem login_token_round_trip:
  assumes "map_of (sessions st) g = Some demo"
    and "u \<in> set (users demo)"
    and "get_json request = Inr data"
    and "dict_get data ''userId'' = Inr (PInt (int (user_id u)))"
    and "authenticateUser g (user_id u) = Some credential"
  shows "\<exists>token payload.
           demo_login get_json check_null_input (login authenticateUser) (tokenize sign secret)
               utcnow request g st =
             (Inr \<lparr>body = [(''token'', token)], status = 200, mimetype = ''application/json'',
                   cookies = [(''auth_token'', token, True)]\<rparr>, st) \<and>
           (\<forall>get_token request' ctx.
              get_token request' = Inr (Some token) \<longrightarrow>
              setup_auth_from_request get_token (detokenize sign secret) request' ctx =
                Inr (ctx\<lparr>auth := Assigned (PDict payload)\<rparr>)) \<and>
           getitem (PDict payload) ''demoGuid'' = Inr (PStr g) \<and>
           getitem (PDict payload) ''userId'' = Inr (PInt (int (user_id u))) \<and>
           getitem (PDict payload) ''exp'' = Inr (PDatetime (utcnow + 14 * 86400))"
proof -
  let ?auth_data = "[(''loopback_token'', PStr credential), (''demoGuid'', PStr g),
      (''userId'', PInt (int (user_id u)))]"
  let ?payload = "AList.update ''exp'' (PDatetime (utcnow + 14 * 86400)) ?auth_data"
  let ?token = "Signed ?payload (sign secret ?payload)"
  have logged: "login authenticateUser g (PInt (int (user_id u))) st = (Inr ?auth_data, st)"
    using assms(1,2,5) by (rule login_known_user)
  have issued: "demo_login get_json check_null_input (login authenticateUser)
      (tokenize sign secret) utcnow request g st =
    (Inr \<lparr>body = [(''token'', ?token)], status = 200, mimetype = ''application/json'',
          cookies = [(''auth_token'', ?token, True)]\<rparr>, st)"
    using assms(3,4) logged by (simp add: demo_login_def tokenize_def Let_def)
  have accepted: "\<forall>get_token request' ctx.
      get_token request' = Inr (Some ?token) \<longrightarrow>
      setup_auth_from_request get_token (detokenize sign secret) request' ctx =
        Inr (ctx\<lparr>auth := Assigned (PDict ?payload)\<rparr>)"
    by (simp add: setup_auth_from_request_def)
  have fields: "getitem (PDict ?payload) ''demoGuid'' = Inr (PStr g)"
    "getitem (PDict ?payload) ''userId'' = Inr (PInt (int (user_id u)))"
    "getitem (PDict ?payload) ''exp'' = Inr (PDatetime (utcnow + 14 * 86400))"
    by (simp_all add: update_conv')
  from issued accepted fields show ?thesis by blast
qed

theorem login_token_round_trip_witness:
  "\<exists>token payload.
     demo_login login_body check_null_input (login example_backend) (tokenize example_sign 7)
         0 () ''G1'' example_store =
       (Inr \<lparr>body = [(''token'', token)], status = 200, mimetype = ''application/json'',
             cookies = [(''auth_token'', token, True)]\<rparr>, example_store) \<and>
     (\<forall>get_token request' ctx.
        get_token request' = Inr (Some token) \<longrightarrow>
        setup_auth_from_request get_token (detokenize example_sign 7) request' ctx =
          Inr (ctx\<lparr>auth := Assigned (PDict payload)\<rparr>)) \<and>
     getitem (PDict payload) ''demoGuid'' = Inr (PStr ''G1'') \<and>
     getitem (PDict payload) ''userId'' = Inr (PInt (int (user_id (hd (users example_demo))))) \<and>
     getitem (PDict payload) ''exp'' = Inr (PDatetime (0 + 14 * 86400))"
proof (rule login_token_round_trip
    [where demo = example_demo and credential = "''credential''"
       and data = "PDict [(''userId'', PInt 2)]"])
  show "map_of (sessions example_store) ''G1'' = Some example_demo"
    by (simp add: example_store_def)
  show "hd (users example_demo) \<in> set (users example_demo)"
    by (simp add: example_demo_def)
  show "login_body () = Inr (PDict [(''userId'', PInt 2)])"
    by (simp add: login_body_def)
  show "dict_get (PDict [(''userId'', PInt 2)]) ''userId'' =
      Inr (PInt (int (user_id (hd (users example_demo)))))"
    by (simp add: example_demo_def)
  show "example_backend ''G1'' (user_id (hd (users example_demo))) = Some ''credential''"
    by (simp add: example_backend_def)
qed

end
